theory Spec2Isabelle
  imports
    Main
    "HOL-Library.Char_ord"
    "HOL-Library.List_Lexorder"
    "HOL-Library.Product_Lexorder"
    "HOL-Library.Sublist"
    "HOL-Library.Multiset"
begin

section \<open>Values of the host language\<close>

text \<open>
  The schedule page computes with JavaScript numbers and strings. The numbers that occur
  are minute counts; they are modelled as integers together with \<open>NaN\<close>, the value
  that arithmetic on a failed numeric conversion produces. Every integer that occurs here
  is far below \<open>2 ^ 53\<close>, where double arithmetic on integers is exact. Strings are
  lists of characters, and a character is a code unit below 256 (the Latin-1 range of
  Unicode). White space is what \<open>trim\<close> and \<open>Number\<close> strip in that range: tab, line
  feed, vertical tab, form feed, carriage return, space and the no-break space U+00A0.
\<close>

datatype jsnum = Num int | NaN

fun js_add :: "jsnum \<Rightarrow> jsnum \<Rightarrow> jsnum" where
  "js_add (Num a) (Num b) = Num (a + b)"
| "js_add _ _ = NaN"

fun js_sub :: "jsnum \<Rightarrow> jsnum \<Rightarrow> jsnum" where
  "js_sub (Num a) (Num b) = Num (a - b)"
| "js_sub _ _ = NaN"

fun js_mul :: "jsnum \<Rightarrow> jsnum \<Rightarrow> jsnum" where
  "js_mul (Num a) (Num b) = Num (a * b)"
| "js_mul _ _ = NaN"

text \<open>Every comparison with \<open>NaN\<close> is false.\<close>

fun js_lt :: "jsnum \<Rightarrow> jsnum \<Rightarrow> bool" where
  "js_lt (Num a) (Num b) = (a < b)"
| "js_lt _ _ = False"

fun js_ge :: "jsnum \<Rightarrow> jsnum \<Rightarrow> bool" where
  "js_ge (Num a) (Num b) = (a \<ge> b)"
| "js_ge _ _ = False"

definition is_whitespace :: "char \<Rightarrow> bool" where
  "is_whitespace c =
     (c \<in> set [CHR 0x09, CHR 0x0A, CHR 0x0B, CHR 0x0C, CHR 0x0D, CHR '' '', CHR 0xA0])"

definition trim :: "string \<Rightarrow> string" where
  "trim s = rev (dropWhile is_whitespace (rev (dropWhile is_whitespace s)))"

definition is_digit :: "char \<Rightarrow> bool" where
  "is_digit c = (48 \<le> (of_char c :: nat) \<and> (of_char c :: nat) \<le> 57)"

definition digit_val :: "char \<Rightarrow> int" where
  "digit_val c = int (of_char c) - 48"

definition decimal_value :: "string \<Rightarrow> int" where
  "decimal_value ds = foldl (\<lambda>acc c. 10 * acc + digit_val c) 0 ds"

text \<open>
  \<open>Number(s)\<close> on a string: white space is trimmed, the empty string is \<open>0\<close>, an
  optionally signed run of decimal digits is its value. Literals with a fraction, an
  exponent or a radix prefix do not denote minute counts written as \<open>HH:MM\<close>; they
  fall outside the integers of this model and are mapped to \<open>NaN\<close> with every other
  string.
\<close>

definition Number_js :: "string \<Rightarrow> jsnum" where
  "Number_js s =
     (let t = trim s in
      if t = [] then Num 0
      else if list_all is_digit t then Num (decimal_value t)
      else (case t of
              c # ds \<Rightarrow>
                if (c = CHR ''+'' \<or> c = CHR ''-'') \<and> ds \<noteq> [] \<and> list_all is_digit ds
                then Num ((if c = CHR ''-'' then - 1 else 1) * decimal_value ds)
                else NaN
            | [] \<Rightarrow> NaN))"

text \<open>\<open>s.split(sep)\<close> for a one-character separator: always at least one piece.\<close>

fun split_js :: "char \<Rightarrow> string \<Rightarrow> string list" where
  "split_js sep [] = [[]]"
| "split_js sep (c # cs) =
     (if c = sep then [] # split_js sep cs
      else (case split_js sep cs of
              w # ws \<Rightarrow> (c # w) # ws
            | [] \<Rightarrow> [[c]]))"

section \<open>Time conversion\<close>

text \<open>
  \<open>timeToMinutes(timeStr)\<close>: a missing or empty argument gives \<open>0\<close>; otherwise the
  string is split at the colons, the pieces are converted with \<open>Number\<close>, and the first
  two are taken as hours and minutes (a missing second piece is \<open>undefined\<close>, which
  arithmetic turns into \<open>NaN\<close>). Hours below five belong to the night of the
  preceding schedule day.
\<close>

definition timeToMinutes :: "string option \<Rightarrow> jsnum" where
  "timeToMinutes timeStr =
     (case timeStr of
        None \<Rightarrow> Num 0
      | Some s \<Rightarrow>
          if s = [] then Num 0
          else
            (let parts = map Number_js (split_js CHR '':'' s);
                 hours = (case parts of h # _ \<Rightarrow> h | [] \<Rightarrow> NaN);
                 minutes = (case parts of _ # m # _ \<Rightarrow> m | _ \<Rightarrow> NaN)
             in if js_lt hours (Num 5)
                then js_add (js_mul (js_add hours (Num 24)) (Num 60)) minutes
                else js_add (js_mul hours (Num 60)) minutes))"

section \<open>Schedule data and view state\<close>

text \<open>
  A performance is one row of the schedule file. The view state (selected day, selected
  minute, the two toggles, the search text) is passed to each derivation explicitly.
\<close>

record performance =
  artist :: string
  stage :: string
  day :: string
  start :: string
  end_str :: string

text \<open>
  Object literals are finite maps from their own property names; a missing property
  reads as \<open>undefined\<close>, which is \<open>None\<close> here.
\<close>

datatype link_data = Link string | DayLinks "(string \<times> string) list"

definition livestreamLinks :: "string \<rightharpoonup> link_data" where
  "livestreamLinks = map_of
     [(''Coachella Stage'', Link ''Y2FzDMuJ5pI''),
      (''Outdoor Theatre'', Link ''WxwawRL_nY8''),
      (''Sahara'', Link ''afO7r8TQTSw''),
      (''Mojave'', Link ''BajnpDN6vG8''),
      (''Gobi'', Link ''Kg-KswkXoBg''),
      (''Sonora'', Link ''TdHrgLciYWw''),
      (''Quasar'', DayLinks
         [(''Friday'', ''1MOJG5VTh-Y''),
          (''Saturday'', ''SreThbvUUI8''),
          (''Sunday'', ''jKWRY1btTOs'')])]"

section \<open>Livestream links\<close>

text \<open>
  \<open>getLivestreamLink(stageName)\<close> reads the selected day from the view state: a string
  entry is returned as it is, an object entry is indexed by the selected day, anything
  else gives \<open>undefined\<close>.
\<close>

definition getLivestreamLink :: "string \<Rightarrow> string \<Rightarrow> string option" where
  "getLivestreamLink selectedDay stageName =
     (case livestreamLinks stageName of
        Some (Link linkData) \<Rightarrow> Some linkData
      | Some (DayLinks linkData) \<Rightarrow> map_of linkData selectedDay
      | None \<Rightarrow> None)"

section \<open>Stages and current performances\<close>

text \<open>\<open>[...new Set(xs)]\<close>: the distinct elements, each at its first occurrence.\<close>

definition new_Set :: "'a list \<Rightarrow> 'a list" where
  "new_Set xs = rev (remdups (rev xs))"

text \<open>
  \<open>.sort()\<close> without a comparator orders strings by their code units, which is the
  lexicographic order on character lists.
\<close>

definition stagesForDay :: "performance list \<Rightarrow> string \<Rightarrow> string list" where
  "stagesForDay schedule selectedDay =
     sort (new_Set (map stage (filter (\<lambda>p. day p = selectedDay) schedule)))"

definition performancesAtTime :: "performance list \<Rightarrow> string \<Rightarrow> int \<Rightarrow> performance list" where
  "performancesAtTime schedule selectedDay selectedTime =
     filter (\<lambda>p.
        if day p \<noteq> selectedDay then False
        else
          (let startMinutes = timeToMinutes (Some (start p));
               endMinutes = timeToMinutes (Some (end_str p))
           in js_ge (Num selectedTime) startMinutes \<and> js_lt (Num selectedTime) endMinutes))
       schedule"

definition stages :: "performance list \<Rightarrow> string \<Rightarrow> int \<Rightarrow> bool \<Rightarrow> bool \<Rightarrow> string list" where
  "stages schedule selectedDay selectedTime hideEmptyStages hideNoStreamStages =
     (let filteredStages = stagesForDay schedule selectedDay;
          filteredStages =
            (if hideEmptyStages
             then (let stagesWithPerformances =
                         map stage (performancesAtTime schedule selectedDay selectedTime)
                   in filter (\<lambda>s. s \<in> set stagesWithPerformances) filteredStages)
             else filteredStages)
      in if hideNoStreamStages
         then (let filteredStages = filter (\<lambda>s. s \<noteq> ''Yuma'') filteredStages
               in if selectedTime < 960 then []
                  else filter (\<lambda>s. getLivestreamLink selectedDay s \<noteq> None) filteredStages)
         else filteredStages)"

section \<open>Chronological list and search\<close>

text \<open>
  \<open>Array.prototype.sort\<close> with a comparator is stable, and a comparator result of
  \<open>NaN\<close> counts as \<open>0\<close>. For a comparator that is a consistent ordering every
  stable sort returns the same list; the model is stable insertion: an element moves
  behind a later one only if the comparator says it is greater.
\<close>

fun js_positive :: "jsnum \<Rightarrow> bool" where
  "js_positive (Num v) = (0 < v)"
| "js_positive NaN = False"

fun insert_by :: "('a \<Rightarrow> 'a \<Rightarrow> jsnum) \<Rightarrow> 'a \<Rightarrow> 'a list \<Rightarrow> 'a list" where
  "insert_by comparefn x [] = [x]"
| "insert_by comparefn x (y # ys) =
     (if js_positive (comparefn x y) then y # insert_by comparefn x ys else x # y # ys)"

definition sort_by :: "('a \<Rightarrow> 'a \<Rightarrow> jsnum) \<Rightarrow> 'a list \<Rightarrow> 'a list" where
  "sort_by comparefn xs = foldr (insert_by comparefn) xs []"

definition dayOrder :: "string \<rightharpoonup> int" where
  "dayOrder = map_of [(''Friday'', 0), (''Saturday'', 1), (''Sunday'', 2)]"

text \<open>\<open>undefined\<close> in arithmetic is \<open>NaN\<close>.\<close>

definition to_number :: "int option \<Rightarrow> jsnum" where
  "to_number v = (case v of Some n \<Rightarrow> Num n | None \<Rightarrow> NaN)"

definition chronological_compare :: "performance \<Rightarrow> performance \<Rightarrow> jsnum" where
  "chronological_compare a b =
     (if dayOrder (day a) \<noteq> dayOrder (day b)
      then js_sub (to_number (dayOrder (day a))) (to_number (dayOrder (day b)))
      else js_sub (timeToMinutes (Some (start a))) (timeToMinutes (Some (start b))))"

definition chronologicalPerformances :: "performance list \<Rightarrow> performance list" where
  "chronologicalPerformances schedule = sort_by chronological_compare schedule"





section \<open>Festival timestamps\<close>














section \<open>Vocabulary of the properties\<close>

text \<open>The number written by two decimal digits.\<close>

definition two_digits :: "char \<Rightarrow> char \<Rightarrow> int" where
  "two_digits a b = 10 * digit_val a + digit_val b"

text \<open>
  The sort key of the chronological list: the rank of the day (Friday 0, Saturday 1,
  Sunday 2) and the start in minutes. A performance is well formed when its day is one of
  the three festival days and its start converts to a number.
\<close>

definition dayRank :: "string \<Rightarrow> int" where
  "dayRank d = (if d = ''Friday'' then 0 else if d = ''Saturday'' then 1 else 2)"

definition startMinutes :: "performance \<Rightarrow> int" where
  "startMinutes p = (case timeToMinutes (Some (start p)) of Num v \<Rightarrow> v | NaN \<Rightarrow> 0)"

definition chronological_key :: "performance \<Rightarrow> int \<times> int" where
  "chronological_key p = (dayRank (day p), startMinutes p)"

definition well_formed :: "performance \<Rightarrow> bool" where
  "well_formed p =
     (day p \<in> set [''Friday'', ''Saturday'', ''Sunday'']
      \<and> timeToMinutes (Some (start p)) \<noteq> NaN)"




section \<open>Properties of the time conversion\<close>

lemma digit_not_colon: "is_digit c \<Longrightarrow> c \<noteq> CHR '':''"
  by (auto simp: is_digit_def)

lemma digit_not_whitespace: "is_digit c \<Longrightarrow> \<not> is_whitespace c"
  by (auto simp: is_digit_def is_whitespace_def)

lemma digit_val_range: "is_digit c \<Longrightarrow> 0 \<le> digit_val c \<and> digit_val c \<le> 9"
  by (auto simp: is_digit_def digit_val_def)

lemma Number_js_two_digits:
  "is_digit a \<Longrightarrow> is_digit b \<Longrightarrow> Number_js [a, b] = Num (two_digits a b)"
  by (simp add: Number_js_def trim_def digit_not_whitespace decimal_value_def two_digits_def)

lemma timeToMinutes_hhmm:
  assumes "is_digit a" "is_digit b" "is_digit c" "is_digit d"
  shows "timeToMinutes (Some [a, b, CHR '':'', c, d]) =
           Num (if two_digits a b < 5 then (two_digits a b + 24) * 60 + two_digits c d
                else two_digits a b * 60 + two_digits c d)"
proof -
  have "split_js CHR '':'' [a, b, CHR '':'', c, d] = [[a, b], [c, d]]"
    using assms by (simp add: digit_not_colon)
  then show ?thesis
    using assms by (simp add: timeToMinutes_def Number_js_two_digits)
qed

text \<open>
  C1. For a time string \<open>HH:MM\<close> (two digits, a colon, two digits) \<open>timeToMinutes\<close>
  returns \<open>(HH + 24) * 60 + MM\<close> when \<open>HH < 5\<close> and \<open>HH * 60 + MM\<close> otherwise; for a
  missing or empty argument it returns \<open>0\<close>. Hence a valid time after midnight
  (\<open>HH\<close> from 0 to 4, \<open>MM\<close> up to 59) is strictly greater than every valid time with
  \<open>HH\<close> from 5 to 23.
\<close>

theorem timeToMinutes_normalises:
  assumes "is_digit a" "is_digit b" "is_digit c" "is_digit d"
  shows "timeToMinutes (Some [a, b, CHR '':'', c, d]) =
           Num (if two_digits a b < 5 then (two_digits a b + 24) * 60 + two_digits c d
                else two_digits a b * 60 + two_digits c d)
         \<and> timeToMinutes None = Num 0
         \<and> timeToMinutes (Some []) = Num 0
         \<and> (\<forall>a' b' c' d'.
               is_digit a' \<and> is_digit b' \<and> is_digit c' \<and> is_digit d'
               \<and> two_digits a b \<le> 4 \<and> two_digits c d \<le> 59
               \<and> 5 \<le> two_digits a' b' \<and> two_digits a' b' \<le> 23 \<and> two_digits c' d' \<le> 59
               \<longrightarrow> js_lt (timeToMinutes (Some [a', b', CHR '':'', c', d']))
                         (timeToMinutes (Some [a, b, CHR '':'', c, d])))"
proof (intro conjI allI impI)
  show "timeToMinutes (Some [a, b, CHR '':'', c, d]) =
           Num (if two_digits a b < 5 then (two_digits a b + 24) * 60 + two_digits c d
                else two_digits a b * 60 + two_digits c d)"
    using assms by (rule timeToMinutes_hhmm)
  show "timeToMinutes None = Num 0" by (simp add: timeToMinutes_def)
  show "timeToMinutes (Some []) = Num 0" by (simp add: timeToMinutes_def)
next
  fix a' b' c' d'
  assume h: "is_digit a' \<and> is_digit b' \<and> is_digit c' \<and> is_digit d'
               \<and> two_digits a b \<le> 4 \<and> two_digits c d \<le> 59
               \<and> 5 \<le> two_digits a' b' \<and> two_digits a' b' \<le> 23 \<and> two_digits c' d' \<le> 59"
  have "0 \<le> two_digits c d" "0 \<le> two_digits a b"
    using assms digit_val_range[of a] digit_val_range[of b]
      digit_val_range[of c] digit_val_range[of d]
    by (simp_all add: two_digits_def)
  then show "js_lt (timeToMinutes (Some [a', b', CHR '':'', c', d']))
                   (timeToMinutes (Some [a, b, CHR '':'', c, d]))"
    using h assms by (simp add: timeToMinutes_hhmm)
qed

theorem timeToMinutes_normalises_witness:
  "is_digit CHR ''0'' \<and> is_digit CHR ''1'' \<and> is_digit CHR ''2'' \<and> is_digit CHR ''3''
   \<and> is_digit CHR ''5'' \<and> is_digit CHR ''9''
   \<and> timeToMinutes (Some ''00:10'') = Num 1450
   \<and> timeToMinutes (Some ''23:59'') = Num 1439
   \<and> js_lt (timeToMinutes (Some ''23:59'')) (timeToMinutes (Some ''00:10''))"
proof -
  have d: "is_digit CHR ''0''" "is_digit CHR ''1''" "is_digit CHR ''2''" "is_digit CHR ''3''"
    "is_digit CHR ''5''" "is_digit CHR ''9''"
    by (simp_all add: is_digit_def)
  have v: "two_digits CHR ''0'' CHR ''0'' = 0" "two_digits CHR ''1'' CHR ''0'' = 10"
    "two_digits CHR ''2'' CHR ''3'' = 23" "two_digits CHR ''5'' CHR ''9'' = 59"
    by (simp_all add: two_digits_def digit_val_def)
  from timeToMinutes_normalises [of "CHR ''0''" "CHR ''0''" "CHR ''1''" "CHR ''0''"]
       timeToMinutes_normalises [of "CHR ''2''" "CHR ''3''" "CHR ''5''" "CHR ''9''"]
  show ?thesis using d v by simp
qed

section \<open>Properties of the current performances\<close>

lemma timeToMinutes_samples:
  "timeToMinutes (Some ''22:00'') = Num 1320"
  "timeToMinutes (Some ''23:59'') = Num 1439"
  "timeToMinutes (Some ''00:05'') = Num 1445"
  "timeToMinutes (Some ''00:10'') = Num 1450"
  by (simp_all add: timeToMinutes_def Number_js_def trim_def is_whitespace_def is_digit_def
        decimal_value_def digit_val_def)

lemma current_iff:
  "(if day p \<noteq> d then False
    else (let startMinutes = timeToMinutes (Some (start p));
              endMinutes = timeToMinutes (Some (end_str p))
          in js_ge (Num m) startMinutes \<and> js_lt (Num m) endMinutes))
   \<longleftrightarrow>
   (day p = d \<and> (\<exists>s e. timeToMinutes (Some (start p)) = Num s
                      \<and> timeToMinutes (Some (end_str p)) = Num e \<and> s \<le> m \<and> m < e))"
  by (cases "timeToMinutes (Some (start p))"; cases "timeToMinutes (Some (end_str p))") simp_all

text \<open>
  C2. The performances current at minute \<open>m\<close> of the selected day are exactly the
  performances of that day, in schedule order, whose start and end convert to numbers
  \<open>s\<close> and \<open>e\<close> with \<open>s \<le> m < e\<close>: the interval is half open. A performance from
  \<open>22:00\<close> to \<open>00:10\<close> is current at its start minute and at the minute of
  \<open>00:05\<close> (1445), and no longer at the minute of \<open>00:10\<close> (1450).
\<close>

theorem performancesAtTime_half_open:
  "performancesAtTime schedule d m =
     filter (\<lambda>p. day p = d \<and>
                 (\<exists>s e. timeToMinutes (Some (start p)) = Num s
                       \<and> timeToMinutes (Some (end_str p)) = Num e \<and> s \<le> m \<and> m < e))
       schedule
   \<and> timeToMinutes (Some ''22:00'') = Num 1320
   \<and> timeToMinutes (Some ''00:05'') = Num 1445
   \<and> timeToMinutes (Some ''00:10'') = Num 1450
   \<and> (\<forall>p. p \<in> set schedule \<and> day p = d \<and> start p = ''22:00'' \<and> end_str p = ''00:10'' \<longrightarrow>
          p \<in> set (performancesAtTime schedule d 1320)
        \<and> p \<in> set (performancesAtTime schedule d 1445)
        \<and> p \<notin> set (performancesAtTime schedule d 1450))"
proof -
  have eq: "performancesAtTime schedule d k =
     filter (\<lambda>p. day p = d \<and>
                 (\<exists>s e. timeToMinutes (Some (start p)) = Num s
                       \<and> timeToMinutes (Some (end_str p)) = Num e \<and> s \<le> k \<and> k < e))
       schedule" for k
    unfolding performancesAtTime_def current_iff ..
  show ?thesis
    by (intro conjI allI impI eq timeToMinutes_samples) (simp_all add: eq timeToMinutes_samples)
qed

theorem performancesAtTime_half_open_witness:
  "performancesAtTime
     [\<lparr>artist = ''A'', stage = ''S1'', day = ''Friday'', start = ''22:00'', end_str = ''00:10''\<rparr>,
      \<lparr>artist = ''B'', stage = ''S2'', day = ''Saturday'', start = ''22:00'', end_str = ''00:10''\<rparr>]
     ''Friday'' 1445 =
     [\<lparr>artist = ''A'', stage = ''S1'', day = ''Friday'', start = ''22:00'', end_str = ''00:10''\<rparr>]
   \<and> \<lparr>artist = ''A'', stage = ''S1'', day = ''Friday'', start = ''22:00'', end_str = ''00:10''\<rparr>
       \<notin> set (performancesAtTime
            [\<lparr>artist = ''A'', stage = ''S1'', day = ''Friday'', start = ''22:00'', end_str = ''00:10''\<rparr>,
             \<lparr>artist = ''B'', stage = ''S2'', day = ''Saturday'', start = ''22:00'', end_str = ''00:10''\<rparr>]
            ''Friday'' 1450)"
  using performancesAtTime_half_open
    [of "[\<lparr>artist = ''A'', stage = ''S1'', day = ''Friday'', start = ''22:00'', end_str = ''00:10''\<rparr>,
          \<lparr>artist = ''B'', stage = ''S2'', day = ''Saturday'', start = ''22:00'', end_str = ''00:10''\<rparr>]"
        "''Friday''" 1445]
  by simp

section \<open>Properties of the visible stages\<close>

lemma getLivestreamLink_Yuma: "getLivestreamLink d ''Yuma'' = None"
  by (simp add: getLivestreamLink_def livestreamLinks_def)

lemma filter_link_Yuma:
  "filter (\<lambda>s. getLivestreamLink d s \<noteq> None) (filter (\<lambda>s. s \<noteq> ''Yuma'') xs) =
   filter (\<lambda>s. getLivestreamLink d s \<noteq> None) xs"
  by (induction xs) (auto simp: getLivestreamLink_Yuma)

lemma stages_set: "set (stages schedule d t he hn) \<subseteq> stage ` {p \<in> set schedule. day p = d}"
  by (auto simp: stages_def Let_def stagesForDay_def new_Set_def)

lemma subseq_sorted:
  fixes xs :: "'a::linorder list"
  shows "subseq xs ys \<Longrightarrow> sorted ys \<Longrightarrow> sorted xs"
proof (induction rule: list_emb.induct)
  case (list_emb_Nil ys)
  then show ?case by simp
next
  case (list_emb_Cons xs ys y)
  then show ?case by simp
next
  case (list_emb_Cons2 x y xs ys)
  then have "set xs \<subseteq> set ys" by (auto dest: list_emb_set)
  with list_emb_Cons2 show ?case by auto
qed

lemma subseq_distinct_list: "subseq xs ys \<Longrightarrow> distinct ys \<Longrightarrow> distinct xs"
proof (induction rule: list_emb.induct)
  case (list_emb_Nil ys)
  then show ?case by simp
next
  case (list_emb_Cons xs ys y)
  then show ?case by simp
next
  case (list_emb_Cons2 x y xs ys)
  then have "set xs \<subseteq> set ys" by (auto dest: list_emb_set)
  with list_emb_Cons2 show ?case by auto
qed

text \<open>
  C3. With the toggle that hides stages without a livestream switched on, and a selected
  minute below 960 (16:00), the list of visible stages is empty, for every schedule, every
  day and either state of the other toggle.
\<close>

theorem stages_empty_before_16:
  "selectedTime < 960 \<Longrightarrow> stages schedule d selectedTime hideEmptyStages True = []"
  by (simp add: stages_def Let_def)

theorem stages_empty_before_16_witness:
  "(955 :: int) < 960
   \<and> stages
        [\<lparr>artist = ''A'', stage = ''Gobi'', day = ''Friday'', start = ''15:00'', end_str = ''16:30''\<rparr>]
        ''Friday'' 955 True True = []
   \<and> stages
        [\<lparr>artist = ''A'', stage = ''Gobi'', day = ''Friday'', start = ''15:00'', end_str = ''16:30''\<rparr>]
        ''Friday'' 955 False True = []"
  using stages_empty_before_16 [of 955
      "[\<lparr>artist = ''A'', stage = ''Gobi'', day = ''Friday'', start = ''15:00'', end_str = ''16:30''\<rparr>]"
      "''Friday''" True]
    stages_empty_before_16 [of 955
      "[\<lparr>artist = ''A'', stage = ''Gobi'', day = ''Friday'', start = ''15:00'', end_str = ''16:30''\<rparr>]"
      "''Friday''" False]
  by simp

lemma stages_toggle_off:
  "stages schedule d t he False =
     filter (\<lambda>s. he \<longrightarrow> s \<in> stage ` set (performancesAtTime schedule d t))
       (stagesForDay schedule d)"
  by (simp add: stages_def Let_def)

lemma stages_sample:
  "stagesForDay
     [\<lparr>artist = ''A'', stage = ''Yuma'', day = ''Friday'', start = ''16:00'', end_str = ''18:00''\<rparr>,
      \<lparr>artist = ''B'', stage = ''Sahara'', day = ''Friday'', start = ''16:30'', end_str = ''17:30''\<rparr>,
      \<lparr>artist = ''C'', stage = ''Gobi'', day = ''Friday'', start = ''18:00'', end_str = ''19:00''\<rparr>]
     ''Friday'' = [''Gobi'', ''Sahara'', ''Yuma'']"
  "performancesAtTime
     [\<lparr>artist = ''A'', stage = ''Yuma'', day = ''Friday'', start = ''16:00'', end_str = ''18:00''\<rparr>,
      \<lparr>artist = ''B'', stage = ''Sahara'', day = ''Friday'', start = ''16:30'', end_str = ''17:30''\<rparr>,
      \<lparr>artist = ''C'', stage = ''Gobi'', day = ''Friday'', start = ''18:00'', end_str = ''19:00''\<rparr>]
     ''Friday'' 1020 =
     [\<lparr>artist = ''A'', stage = ''Yuma'', day = ''Friday'', start = ''16:00'', end_str = ''18:00''\<rparr>,
      \<lparr>artist = ''B'', stage = ''Sahara'', day = ''Friday'', start = ''16:30'', end_str = ''17:30''\<rparr>]"
  by code_simp+

lemma links_sample:
  "getLivestreamLink ''Friday'' ''Gobi'' = Some ''Kg-KswkXoBg''"
  "getLivestreamLink ''Friday'' ''Sahara'' = Some ''afO7r8TQTSw''"
  "getLivestreamLink ''Friday'' ''Yuma'' = None"
  "livestreamLinks ''Yuma'' = None"
  by (simp_all add: getLivestreamLink_def livestreamLinks_def)

text \<open>
  C4. With the toggle that hides stages without a livestream on and a selected minute of
  at least 960, the visible stages are exactly the stages of the day, restricted to those
  with a current performance when the other toggle is on, for which \<open>getLivestreamLink\<close>
  finds a link on the selected day; that is the list shown with the toggle off, filtered by
  the link. A stage without a registry entry is never among them, and a schedule with no
  other stage gives the empty list.
\<close>

theorem stages_hide_no_stream_after_16:
  assumes "960 \<le> t"
  shows "stages schedule d t he True =
           filter (\<lambda>s. (he \<longrightarrow> s \<in> stage ` set (performancesAtTime schedule d t))
                        \<and> getLivestreamLink d s \<noteq> None)
             (stagesForDay schedule d)
         \<and> stages schedule d t he False =
           filter (\<lambda>s. he \<longrightarrow> s \<in> stage ` set (performancesAtTime schedule d t))
             (stagesForDay schedule d)
         \<and> stages schedule d t he True =
           filter (\<lambda>s. getLivestreamLink d s \<noteq> None) (stages schedule d t he False)
         \<and> (\<forall>s. livestreamLinks s = None \<longrightarrow> s \<notin> set (stages schedule d t he True))
         \<and> (\<forall>s. livestreamLinks s = None \<and> (\<forall>p \<in> set schedule. stage p = s) \<longrightarrow>
                stages schedule d t he True = [])"
proof -
  have eq: "stages schedule d t he True =
           filter (\<lambda>s. getLivestreamLink d s \<noteq> None) (stages schedule d t he False)"
    using assms
    by (cases he) (auto simp: stages_def Let_def getLivestreamLink_Yuma intro!: filter_cong)
  have full: "stages schedule d t he True =
           filter (\<lambda>s. (he \<longrightarrow> s \<in> stage ` set (performancesAtTime schedule d t))
                        \<and> getLivestreamLink d s \<noteq> None)
             (stagesForDay schedule d)"
    unfolding eq stages_toggle_off by (simp add: conj_commute)
  have absent: "s \<notin> set (stages schedule d t he True)" if "livestreamLinks s = None" for s
    using that by (simp add: eq getLivestreamLink_def)
  have only: "stages schedule d t he True = []"
    if "livestreamLinks s = None \<and> (\<forall>p \<in> set schedule. stage p = s)" for s
  proof -
    have "set (stages schedule d t he True) \<subseteq> {s}"
      using stages_set[of schedule d t he True] that by auto
    moreover have "s \<notin> set (stages schedule d t he True)"
      using absent[of s] that by simp
    ultimately show ?thesis
      by (cases "stages schedule d t he True") auto
  qed
  from full stages_toggle_off eq absent only show ?thesis by blast
qed

theorem stages_hide_no_stream_after_16_witness:
  "(960 :: int) \<le> 1020
   \<and> stages
        [\<lparr>artist = ''A'', stage = ''Yuma'', day = ''Friday'', start = ''16:00'', end_str = ''18:00''\<rparr>,
         \<lparr>artist = ''B'', stage = ''Sahara'', day = ''Friday'', start = ''16:30'', end_str = ''17:30''\<rparr>,
         \<lparr>artist = ''C'', stage = ''Gobi'', day = ''Friday'', start = ''18:00'', end_str = ''19:00''\<rparr>]
        ''Friday'' 1020 True True = [''Sahara'']
   \<and> stages
        [\<lparr>artist = ''A'', stage = ''Yuma'', day = ''Friday'', start = ''16:00'', end_str = ''18:00''\<rparr>,
         \<lparr>artist = ''B'', stage = ''Sahara'', day = ''Friday'', start = ''16:30'', end_str = ''17:30''\<rparr>,
         \<lparr>artist = ''C'', stage = ''Gobi'', day = ''Friday'', start = ''18:00'', end_str = ''19:00''\<rparr>]
        ''Friday'' 1020 False True = [''Gobi'', ''Sahara'']
   \<and> livestreamLinks ''Yuma'' = None
   \<and> stages
        [\<lparr>artist = ''A'', stage = ''Yuma'', day = ''Friday'', start = ''16:00'', end_str = ''18:00''\<rparr>]
        ''Friday'' 1020 False True = []"
proof -
  have t: "(960 :: int) \<le> 1020" by simp
  note th = stages_hide_no_stream_after_16 [OF t]
  from th [of "[\<lparr>artist = ''A'', stage = ''Yuma'', day = ''Friday'', start = ''16:00'', end_str = ''18:00''\<rparr>,
         \<lparr>artist = ''B'', stage = ''Sahara'', day = ''Friday'', start = ''16:30'', end_str = ''17:30''\<rparr>,
         \<lparr>artist = ''C'', stage = ''Gobi'', day = ''Friday'', start = ''18:00'', end_str = ''19:00''\<rparr>]"
        "''Friday''" True]
  have 1: "stages
        [\<lparr>artist = ''A'', stage = ''Yuma'', day = ''Friday'', start = ''16:00'', end_str = ''18:00''\<rparr>,
         \<lparr>artist = ''B'', stage = ''Sahara'', day = ''Friday'', start = ''16:30'', end_str = ''17:30''\<rparr>,
         \<lparr>artist = ''C'', stage = ''Gobi'', day = ''Friday'', start = ''18:00'', end_str = ''19:00''\<rparr>]
        ''Friday'' 1020 True True = [''Sahara'']"
    unfolding stages_sample by (simp add: links_sample)
  from th [of "[\<lparr>artist = ''A'', stage = ''Yuma'', day = ''Friday'', start = ''16:00'', end_str = ''18:00''\<rparr>,
         \<lparr>artist = ''B'', stage = ''Sahara'', day = ''Friday'', start = ''16:30'', end_str = ''17:30''\<rparr>,
         \<lparr>artist = ''C'', stage = ''Gobi'', day = ''Friday'', start = ''18:00'', end_str = ''19:00''\<rparr>]"
        "''Friday''" False]
  have 2: "stages
        [\<lparr>artist = ''A'', stage = ''Yuma'', day = ''Friday'', start = ''16:00'', end_str = ''18:00''\<rparr>,
         \<lparr>artist = ''B'', stage = ''Sahara'', day = ''Friday'', start = ''16:30'', end_str = ''17:30''\<rparr>,
         \<lparr>artist = ''C'', stage = ''Gobi'', day = ''Friday'', start = ''18:00'', end_str = ''19:00''\<rparr>]
        ''Friday'' 1020 False True = [''Gobi'', ''Sahara'']"
    unfolding stages_sample by (simp add: links_sample)
  from th [of "[\<lparr>artist = ''A'', stage = ''Yuma'', day = ''Friday'', start = ''16:00'', end_str = ''18:00''\<rparr>]"
         "''Friday''" False]
  have "livestreamLinks ''Yuma'' = None
        \<and> (\<forall>p \<in> set [\<lparr>artist = ''A'', stage = ''Yuma'', day = ''Friday'', start = ''16:00'', end_str = ''18:00''\<rparr>].
               stage p = ''Yuma'')
        \<longrightarrow> stages
        [\<lparr>artist = ''A'', stage = ''Yuma'', day = ''Friday'', start = ''16:00'', end_str = ''18:00''\<rparr>]
        ''Friday'' 1020 False True = []"
    by blast
  then have 3: "stages
        [\<lparr>artist = ''A'', stage = ''Yuma'', day = ''Friday'', start = ''16:00'', end_str = ''18:00''\<rparr>]
        ''Friday'' 1020 False True = []"
    by (simp add: links_sample)
  from t 1 2 3 links_sample(4) show ?thesis by blast
qed

text \<open>
  C10. Under every state of the two toggles the visible stages are a subsequence of the
  stages of the selected day, which are the distinct stage names of that day's performances
  in lexicographic order; so the visible stages are sorted, free of duplicates, and each of
  them has a performance on the selected day.
\<close>

theorem stages_sorted_distinct_subseq:
  "subseq (stages schedule d t he hn) (stagesForDay schedule d)
   \<and> sorted (stagesForDay schedule d) \<and> distinct (stagesForDay schedule d)
   \<and> set (stagesForDay schedule d) = stage ` {p \<in> set schedule. day p = d}
   \<and> sorted (stages schedule d t he hn) \<and> distinct (stages schedule d t he hn)
   \<and> set (stages schedule d t he hn) \<subseteq> stage ` {p \<in> set schedule. day p = d}"
proof -
  have 1: "subseq (stages schedule d t he hn) (stagesForDay schedule d)"
    by (auto simp: stages_def Let_def intro: subseq_order.trans[OF subseq_filter_left])
  have 2: "sorted (stagesForDay schedule d)" by (simp add: stagesForDay_def)
  have 3: "distinct (stagesForDay schedule d)" by (simp add: stagesForDay_def new_Set_def)
  have 4: "set (stagesForDay schedule d) = stage ` {p \<in> set schedule. day p = d}"
    by (auto simp: stagesForDay_def new_Set_def)
  have 5: "sorted (stages schedule d t he hn)"
    using 1 2 by (rule subseq_sorted)
  have 6: "distinct (stages schedule d t he hn)"
    using 1 3 by (rule subseq_distinct_list)
  from 1 2 3 4 5 6 stages_set show ?thesis by blast
qed

theorem stages_sorted_distinct_subseq_witness:
  "subseq
     (stages
        [\<lparr>artist = ''A'', stage = ''Sahara'', day = ''Friday'', start = ''17:00'', end_str = ''18:00''\<rparr>,
         \<lparr>artist = ''B'', stage = ''Gobi'', day = ''Friday'', start = ''19:00'', end_str = ''20:00''\<rparr>,
         \<lparr>artist = ''C'', stage = ''Sahara'', day = ''Friday'', start = ''18:00'', end_str = ''19:00''\<rparr>]
        ''Friday'' 1050 True False)
     [''Gobi'', ''Sahara'']
   \<and> stagesForDay
        [\<lparr>artist = ''A'', stage = ''Sahara'', day = ''Friday'', start = ''17:00'', end_str = ''18:00''\<rparr>,
         \<lparr>artist = ''B'', stage = ''Gobi'', day = ''Friday'', start = ''19:00'', end_str = ''20:00''\<rparr>,
         \<lparr>artist = ''C'', stage = ''Sahara'', day = ''Friday'', start = ''18:00'', end_str = ''19:00''\<rparr>]
        ''Friday'' = [''Gobi'', ''Sahara'']"
proof -
  have e: "stagesForDay
        [\<lparr>artist = ''A'', stage = ''Sahara'', day = ''Friday'', start = ''17:00'', end_str = ''18:00''\<rparr>,
         \<lparr>artist = ''B'', stage = ''Gobi'', day = ''Friday'', start = ''19:00'', end_str = ''20:00''\<rparr>,
         \<lparr>artist = ''C'', stage = ''Sahara'', day = ''Friday'', start = ''18:00'', end_str = ''19:00''\<rparr>]
        ''Friday'' = [''Gobi'', ''Sahara'']"
    by code_simp
  from stages_sorted_distinct_subseq
    [of "[\<lparr>artist = ''A'', stage = ''Sahara'', day = ''Friday'', start = ''17:00'', end_str = ''18:00''\<rparr>,
         \<lparr>artist = ''B'', stage = ''Gobi'', day = ''Friday'', start = ''19:00'', end_str = ''20:00''\<rparr>,
         \<lparr>artist = ''C'', stage = ''Sahara'', day = ''Friday'', start = ''18:00'', end_str = ''19:00''\<rparr>]"
        "''Friday''" 1050 True False]
  show ?thesis unfolding e by simp
qed

section \<open>Properties of the livestream links\<close>

text \<open>
  C8. \<open>getLivestreamLink\<close> returns the identifier of a stage whose registry entry is a
  single identifier, whatever the day; for an entry by day it returns the identifier of the
  selected day, or nothing when that day has none; for a stage without an entry it returns
  nothing. The result is always a value, and an identifier it returns is the one the
  registry holds for the stage, or for the stage and the day: there is no default.
  For Quasar it finds the Saturday identifier on Saturday and nothing on a Monday.
\<close>

theorem getLivestreamLink_resolves:
  "(\<forall>l. livestreamLinks s = Some (Link l) \<longrightarrow>
        getLivestreamLink d s = Some l \<and> getLivestreamLink d' s = Some l)
   \<and> (\<forall>m. livestreamLinks s = Some (DayLinks m) \<longrightarrow>
        getLivestreamLink d s = map_of m d)
   \<and> (livestreamLinks s = None \<longrightarrow> getLivestreamLink d s = None)
   \<and> (\<forall>l. getLivestreamLink d s = Some l \<longrightarrow>
        livestreamLinks s = Some (Link l)
        \<or> (\<exists>m. livestreamLinks s = Some (DayLinks m) \<and> map_of m d = Some l))
   \<and> getLivestreamLink ''Saturday'' ''Quasar'' = Some ''SreThbvUUI8''
   \<and> getLivestreamLink ''Monday'' ''Quasar'' = None"
proof (intro conjI allI impI)
  show "getLivestreamLink ''Saturday'' ''Quasar'' = Some ''SreThbvUUI8''"
    and "getLivestreamLink ''Monday'' ''Quasar'' = None"
    by (simp_all add: getLivestreamLink_def livestreamLinks_def)
next
  fix l assume "getLivestreamLink d s = Some l"
  then show "livestreamLinks s = Some (Link l)
        \<or> (\<exists>m. livestreamLinks s = Some (DayLinks m) \<and> map_of m d = Some l)"
    by (auto simp: getLivestreamLink_def split: option.splits link_data.splits)
qed (simp_all add: getLivestreamLink_def)

theorem getLivestreamLink_resolves_witness:
  "livestreamLinks ''Gobi'' = Some (Link ''Kg-KswkXoBg'')
   \<and> getLivestreamLink ''Saturday'' ''Gobi'' = Some ''Kg-KswkXoBg''
   \<and> getLivestreamLink ''Monday'' ''Gobi'' = Some ''Kg-KswkXoBg''
   \<and> livestreamLinks ''Yuma'' = None
   \<and> getLivestreamLink ''Saturday'' ''Yuma'' = None"
proof -
  have g: "livestreamLinks ''Gobi'' = Some (Link ''Kg-KswkXoBg'')"
    and y: "livestreamLinks ''Yuma'' = None"
    by (simp_all add: livestreamLinks_def)
  from getLivestreamLink_resolves [of "''Gobi''" "''Saturday''" "''Monday''"] g
  have 1: "getLivestreamLink ''Saturday'' ''Gobi'' = Some ''Kg-KswkXoBg''
           \<and> getLivestreamLink ''Monday'' ''Gobi'' = Some ''Kg-KswkXoBg''"
    by blast
  from getLivestreamLink_resolves [of "''Yuma''" "''Saturday''" "''Monday''"] y
  have 2: "getLivestreamLink ''Saturday'' ''Yuma'' = None"
    by blast
  from g y 1 2 show ?thesis by blast
qed

section \<open>Properties of the chronological list\<close>

lemma dayOrder_dayRank:
  "d \<in> set [''Friday'', ''Saturday'', ''Sunday''] \<Longrightarrow> dayOrder d = Some (dayRank d)"
  by (auto simp: dayOrder_def dayRank_def)

lemma compare_positive_iff:
  assumes "well_formed a" "well_formed b"
  shows "js_positive (chronological_compare a b) \<longleftrightarrow> \<not> chronological_key a \<le> chronological_key b"
proof -
  have "timeToMinutes (Some (start a)) \<noteq> NaN" "timeToMinutes (Some (start b)) \<noteq> NaN"
    using assms by (simp_all add: well_formed_def)
  then obtain sa sb where
    s: "timeToMinutes (Some (start a)) = Num sa" "timeToMinutes (Some (start b)) = Num sb"
    by (cases "timeToMinutes (Some (start a))"; cases "timeToMinutes (Some (start b))") simp_all
  have r: "dayOrder (day a) = Some (dayRank (day a))" "dayOrder (day b) = Some (dayRank (day b))"
    using assms by (simp_all add: well_formed_def dayOrder_dayRank)
  show ?thesis
    by (auto simp: chronological_compare_def r s to_number_def chronological_key_def
        startMinutes_def less_eq_prod_def)
qed

lemma insert_by_insort_key:
  "well_formed x \<Longrightarrow> list_all well_formed ys \<Longrightarrow>
   insert_by chronological_compare x ys = insort_key chronological_key x ys"
  by (induction ys) (simp_all add: compare_positive_iff)

lemma sort_by_sort_key:
  "list_all well_formed xs \<Longrightarrow>
   sort_by chronological_compare xs = sort_key chronological_key xs"
proof (induction xs)
  case Nil
  then show ?case by (simp add: sort_by_def)
next
  case (Cons x xs)
  then have ih: "foldr (insert_by chronological_compare) xs [] = sort_key chronological_key xs"
    by (simp add: sort_by_def)
  have "list_all well_formed (sort_key chronological_key xs)"
    using Cons.prems by (simp add: list_all_iff)
  with Cons.prems show ?case
    by (simp add: sort_by_def ih insert_by_insort_key sort_key_def)
qed

lemma chronological_sort_key:
  "list_all well_formed schedule \<Longrightarrow>
   chronologicalPerformances schedule = sort_key chronological_key schedule"
  by (simp add: chronologicalPerformances_def sort_by_sort_key)

lemma well_formed_samples:
  "well_formed \<lparr>artist = ''A'', stage = ''Sahara'', day = ''Saturday'', start = ''17:00'', end_str = ''18:00''\<rparr>"
  "well_formed \<lparr>artist = ''B'', stage = ''Gobi'', day = ''Friday'', start = ''00:10'', end_str = ''01:00''\<rparr>"
  "well_formed \<lparr>artist = ''C'', stage = ''Mojave'', day = ''Friday'', start = ''22:00'', end_str = ''23:00''\<rparr>"
  "well_formed \<lparr>artist = ''D'', stage = ''Sonora'', day = ''Friday'', start = ''22:00'', end_str = ''23:30''\<rparr>"
  by (simp_all add: well_formed_def timeToMinutes_def Number_js_def trim_def is_whitespace_def
      is_digit_def decimal_value_def digit_val_def)

lemma chronological_sample:
  "chronologicalPerformances
     [\<lparr>artist = ''A'', stage = ''Sahara'', day = ''Saturday'', start = ''17:00'', end_str = ''18:00''\<rparr>,
      \<lparr>artist = ''B'', stage = ''Gobi'', day = ''Friday'', start = ''00:10'', end_str = ''01:00''\<rparr>,
      \<lparr>artist = ''C'', stage = ''Mojave'', day = ''Friday'', start = ''22:00'', end_str = ''23:00''\<rparr>,
      \<lparr>artist = ''D'', stage = ''Sonora'', day = ''Friday'', start = ''22:00'', end_str = ''23:30''\<rparr>] =
     [\<lparr>artist = ''C'', stage = ''Mojave'', day = ''Friday'', start = ''22:00'', end_str = ''23:00''\<rparr>,
      \<lparr>artist = ''D'', stage = ''Sonora'', day = ''Friday'', start = ''22:00'', end_str = ''23:30''\<rparr>,
      \<lparr>artist = ''B'', stage = ''Gobi'', day = ''Friday'', start = ''00:10'', end_str = ''01:00''\<rparr>,
      \<lparr>artist = ''A'', stage = ''Sahara'', day = ''Saturday'', start = ''17:00'', end_str = ''18:00''\<rparr>]"
  by code_simp

text \<open>
  C5. For a schedule of well-formed performances the chronological list is a permutation
  of the schedule, ascending in the pair of day rank (Friday 0, Saturday 1, Sunday 2) and
  start minutes, and stable: the performances of any one day and start minute keep the
  order they have in the schedule.
\<close>

theorem chronologicalPerformances_stable_sort:
  assumes "list_all well_formed schedule"
  shows "mset (chronologicalPerformances schedule) = mset schedule
         \<and> sorted_wrt (\<lambda>p q. dayRank (day p) < dayRank (day q)
                            \<or> (dayRank (day p) = dayRank (day q) \<and> startMinutes p \<le> startMinutes q))
              (chronologicalPerformances schedule)
         \<and> (\<forall>r m. filter (\<lambda>p. dayRank (day p) = r \<and> startMinutes p = m)
                      (chronologicalPerformances schedule) =
                    filter (\<lambda>p. dayRank (day p) = r \<and> startMinutes p = m) schedule)
         \<and> dayRank ''Friday'' = 0 \<and> dayRank ''Saturday'' = 1 \<and> dayRank ''Sunday'' = 2"
proof -
  note eq = chronological_sort_key[OF assms]
  have "sorted (map chronological_key (sort_key chronological_key schedule))"
    by (rule sorted_sort_key)
  then have srt: "sorted_wrt (\<lambda>p q. dayRank (day p) < dayRank (day q)
                            \<or> (dayRank (day p) = dayRank (day q) \<and> startMinutes p \<le> startMinutes q))
              (sort_key chronological_key schedule)"
    unfolding sorted_map
    by (rule sorted_wrt_mono_rel[rotated]) (auto simp: chronological_key_def less_eq_prod_def)
  have stab: "filter (\<lambda>p. dayRank (day p) = r \<and> startMinutes p = m)
                      (sort_key chronological_key schedule) =
                    filter (\<lambda>p. dayRank (day p) = r \<and> startMinutes p = m) schedule" for r m
    using sort_key_stable[of chronological_key "(r, m)" schedule]
    by (simp add: chronological_key_def)
  show ?thesis
    unfolding eq using srt stab by (simp add: dayRank_def)
qed

theorem chronologicalPerformances_stable_sort_witness:
  "list_all well_formed
     [\<lparr>artist = ''A'', stage = ''Sahara'', day = ''Saturday'', start = ''17:00'', end_str = ''18:00''\<rparr>,
      \<lparr>artist = ''B'', stage = ''Gobi'', day = ''Friday'', start = ''00:10'', end_str = ''01:00''\<rparr>,
      \<lparr>artist = ''C'', stage = ''Mojave'', day = ''Friday'', start = ''22:00'', end_str = ''23:00''\<rparr>,
      \<lparr>artist = ''D'', stage = ''Sonora'', day = ''Friday'', start = ''22:00'', end_str = ''23:30''\<rparr>]
   \<and> chronologicalPerformances
     [\<lparr>artist = ''A'', stage = ''Sahara'', day = ''Saturday'', start = ''17:00'', end_str = ''18:00''\<rparr>,
      \<lparr>artist = ''B'', stage = ''Gobi'', day = ''Friday'', start = ''00:10'', end_str = ''01:00''\<rparr>,
      \<lparr>artist = ''C'', stage = ''Mojave'', day = ''Friday'', start = ''22:00'', end_str = ''23:00''\<rparr>,
      \<lparr>artist = ''D'', stage = ''Sonora'', day = ''Friday'', start = ''22:00'', end_str = ''23:30''\<rparr>] =
     [\<lparr>artist = ''C'', stage = ''Mojave'', day = ''Friday'', start = ''22:00'', end_str = ''23:00''\<rparr>,
      \<lparr>artist = ''D'', stage = ''Sonora'', day = ''Friday'', start = ''22:00'', end_str = ''23:30''\<rparr>,
      \<lparr>artist = ''B'', stage = ''Gobi'', day = ''Friday'', start = ''00:10'', end_str = ''01:00''\<rparr>,
      \<lparr>artist = ''A'', stage = ''Sahara'', day = ''Saturday'', start = ''17:00'', end_str = ''18:00''\<rparr>]
   \<and> mset
     [\<lparr>artist = ''C'', stage = ''Mojave'', day = ''Friday'', start = ''22:00'', end_str = ''23:00''\<rparr>,
      \<lparr>artist = ''D'', stage = ''Sonora'', day = ''Friday'', start = ''22:00'', end_str = ''23:30''\<rparr>,
      \<lparr>artist = ''B'', stage = ''Gobi'', day = ''Friday'', start = ''00:10'', end_str = ''01:00''\<rparr>,
      \<lparr>artist = ''A'', stage = ''Sahara'', day = ''Saturday'', start = ''17:00'', end_str = ''18:00''\<rparr>] =
     mset
     [\<lparr>artist = ''A'', stage = ''Sahara'', day = ''Saturday'', start = ''17:00'', end_str = ''18:00''\<rparr>,
      \<lparr>artist = ''B'', stage = ''Gobi'', day = ''Friday'', start = ''00:10'', end_str = ''01:00''\<rparr>,
      \<lparr>artist = ''C'', stage = ''Mojave'', day = ''Friday'', start = ''22:00'', end_str = ''23:00''\<rparr>,
      \<lparr>artist = ''D'', stage = ''Sonora'', day = ''Friday'', start = ''22:00'', end_str = ''23:30''\<rparr>]
   \<and> sorted_wrt (\<lambda>p q. dayRank (day p) < dayRank (day q)
                \<or> (dayRank (day p) = dayRank (day q) \<and> startMinutes p \<le> startMinutes q))
     [\<lparr>artist = ''C'', stage = ''Mojave'', day = ''Friday'', start = ''22:00'', end_str = ''23:00''\<rparr>,
      \<lparr>artist = ''D'', stage = ''Sonora'', day = ''Friday'', start = ''22:00'', end_str = ''23:30''\<rparr>,
      \<lparr>artist = ''B'', stage = ''Gobi'', day = ''Friday'', start = ''00:10'', end_str = ''01:00''\<rparr>,
      \<lparr>artist = ''A'', stage = ''Sahara'', day = ''Saturday'', start = ''17:00'', end_str = ''18:00''\<rparr>]"
proof -
  have wf: "list_all well_formed
     [\<lparr>artist = ''A'', stage = ''Sahara'', day = ''Saturday'', start = ''17:00'', end_str = ''18:00''\<rparr>,
      \<lparr>artist = ''B'', stage = ''Gobi'', day = ''Friday'', start = ''00:10'', end_str = ''01:00''\<rparr>,
      \<lparr>artist = ''C'', stage = ''Mojave'', day = ''Friday'', start = ''22:00'', end_str = ''23:00''\<rparr>,
      \<lparr>artist = ''D'', stage = ''Sonora'', day = ''Friday'', start = ''22:00'', end_str = ''23:30''\<rparr>]"
    by (simp add: well_formed_samples)
  from chronologicalPerformances_stable_sort [OF wf]
  have "mset (chronologicalPerformances
     [\<lparr>artist = ''A'', stage = ''Sahara'', day = ''Saturday'', start = ''17:00'', end_str = ''18:00''\<rparr>,
      \<lparr>artist = ''B'', stage = ''Gobi'', day = ''Friday'', start = ''00:10'', end_str = ''01:00''\<rparr>,
      \<lparr>artist = ''C'', stage = ''Mojave'', day = ''Friday'', start = ''22:00'', end_str = ''23:00''\<rparr>,
      \<lparr>artist = ''D'', stage = ''Sonora'', day = ''Friday'', start = ''22:00'', end_str = ''23:30''\<rparr>]) =
     mset
     [\<lparr>artist = ''A'', stage = ''Sahara'', day = ''Saturday'', start = ''17:00'', end_str = ''18:00''\<rparr>,
      \<lparr>artist = ''B'', stage = ''Gobi'', day = ''Friday'', start = ''00:10'', end_str = ''01:00''\<rparr>,
      \<lparr>artist = ''C'', stage = ''Mojave'', day = ''Friday'', start = ''22:00'', end_str = ''23:00''\<rparr>,
      \<lparr>artist = ''D'', stage = ''Sonora'', day = ''Friday'', start = ''22:00'', end_str = ''23:30''\<rparr>]
   \<and> sorted_wrt (\<lambda>p q. dayRank (day p) < dayRank (day q)
                \<or> (dayRank (day p) = dayRank (day q) \<and> startMinutes p \<le> startMinutes q))
     (chronologicalPerformances
     [\<lparr>artist = ''A'', stage = ''Sahara'', day = ''Saturday'', start = ''17:00'', end_str = ''18:00''\<rparr>,
      \<lparr>artist = ''B'', stage = ''Gobi'', day = ''Friday'', start = ''00:10'', end_str = ''01:00''\<rparr>,
      \<lparr>artist = ''C'', stage = ''Mojave'', day = ''Friday'', start = ''22:00'', end_str = ''23:00''\<rparr>,
      \<lparr>artist = ''D'', stage = ''Sonora'', day = ''Friday'', start = ''22:00'', end_str = ''23:30''\<rparr>])"
    by blast
  then show ?thesis
    unfolding chronological_sample using wf by simp
qed

text \<open>
  C6. Sorting the chronological list again changes nothing, also when performances tie
  in day and start minute.
\<close>

theorem chronologicalPerformances_idempotent:
  assumes "list_all well_formed schedule"
  shows "chronologicalPerformances (chronologicalPerformances schedule) =
         chronologicalPerformances schedule"
proof -
  note eq = chronological_sort_key[OF assms]
  have wf: "list_all well_formed (sort_key chronological_key schedule)"
    using assms by (simp add: list_all_iff)
  have "sort_key chronological_key (sort_key chronological_key schedule) =
        sort_key chronological_key schedule"
    by (rule sort_key_id_if_sorted) (rule sorted_sort_key)
  then show ?thesis
    by (simp add: eq chronological_sort_key[OF wf])
qed

theorem chronologicalPerformances_idempotent_witness:
  "list_all well_formed
     [\<lparr>artist = ''A'', stage = ''Sahara'', day = ''Saturday'', start = ''17:00'', end_str = ''18:00''\<rparr>,
      \<lparr>artist = ''B'', stage = ''Gobi'', day = ''Friday'', start = ''00:10'', end_str = ''01:00''\<rparr>,
      \<lparr>artist = ''C'', stage = ''Mojave'', day = ''Friday'', start = ''22:00'', end_str = ''23:00''\<rparr>,
      \<lparr>artist = ''D'', stage = ''Sonora'', day = ''Friday'', start = ''22:00'', end_str = ''23:30''\<rparr>]
   \<and> chronologicalPerformances
     [\<lparr>artist = ''A'', stage = ''Sahara'', day = ''Saturday'', start = ''17:00'', end_str = ''18:00''\<rparr>,
      \<lparr>artist = ''B'', stage = ''Gobi'', day = ''Friday'', start = ''00:10'', end_str = ''01:00''\<rparr>,
      \<lparr>artist = ''C'', stage = ''Mojave'', day = ''Friday'', start = ''22:00'', end_str = ''23:00''\<rparr>,
      \<lparr>artist = ''D'', stage = ''Sonora'', day = ''Friday'', start = ''22:00'', end_str = ''23:30''\<rparr>] =
     [\<lparr>artist = ''C'', stage = ''Mojave'', day = ''Friday'', start = ''22:00'', end_str = ''23:00''\<rparr>,
      \<lparr>artist = ''D'', stage = ''Sonora'', day = ''Friday'', start = ''22:00'', end_str = ''23:30''\<rparr>,
      \<lparr>artist = ''B'', stage = ''Gobi'', day = ''Friday'', start = ''00:10'', end_str = ''01:00''\<rparr>,
      \<lparr>artist = ''A'', stage = ''Sahara'', day = ''Saturday'', start = ''17:00'', end_str = ''18:00''\<rparr>]
   \<and> chronologicalPerformances
     [\<lparr>artist = ''C'', stage = ''Mojave'', day = ''Friday'', start = ''22:00'', end_str = ''23:00''\<rparr>,
      \<lparr>artist = ''D'', stage = ''Sonora'', day = ''Friday'', start = ''22:00'', end_str = ''23:30''\<rparr>,
      \<lparr>artist = ''B'', stage = ''Gobi'', day = ''Friday'', start = ''00:10'', end_str = ''01:00''\<rparr>,
      \<lparr>artist = ''A'', stage = ''Sahara'', day = ''Saturday'', start = ''17:00'', end_str = ''18:00''\<rparr>] =
     [\<lparr>artist = ''C'', stage = ''Mojave'', day = ''Friday'', start = ''22:00'', end_str = ''23:00''\<rparr>,
      \<lparr>artist = ''D'', stage = ''Sonora'', day = ''Friday'', start = ''22:00'', end_str = ''23:30''\<rparr>,
      \<lparr>artist = ''B'', stage = ''Gobi'', day = ''Friday'', start = ''00:10'', end_str = ''01:00''\<rparr>,
      \<lparr>artist = ''A'', stage = ''Sahara'', day = ''Saturday'', start = ''17:00'', end_str = ''18:00''\<rparr>]"
proof -
  have wf: "list_all well_formed
     [\<lparr>artist = ''A'', stage = ''Sahara'', day = ''Saturday'', start = ''17:00'', end_str = ''18:00''\<rparr>,
      \<lparr>artist = ''B'', stage = ''Gobi'', day = ''Friday'', start = ''00:10'', end_str = ''01:00''\<rparr>,
      \<lparr>artist = ''C'', stage = ''Mojave'', day = ''Friday'', start = ''22:00'', end_str = ''23:00''\<rparr>,
      \<lparr>artist = ''D'', stage = ''Sonora'', day = ''Friday'', start = ''22:00'', end_str = ''23:30''\<rparr>]"
    by (simp add: well_formed_samples)
  from chronologicalPerformances_idempotent [OF wf]
  have "chronologicalPerformances
     [\<lparr>artist = ''C'', stage = ''Mojave'', day = ''Friday'', start = ''22:00'', end_str = ''23:00''\<rparr>,
      \<lparr>artist = ''D'', stage = ''Sonora'', day = ''Friday'', start = ''22:00'', end_str = ''23:30''\<rparr>,
      \<lparr>artist = ''B'', stage = ''Gobi'', day = ''Friday'', start = ''00:10'', end_str = ''01:00''\<rparr>,
      \<lparr>artist = ''A'', stage = ''Sahara'', day = ''Saturday'', start = ''17:00'', end_str = ''18:00''\<rparr>] =
     [\<lparr>artist = ''C'', stage = ''Mojave'', day = ''Friday'', start = ''22:00'', end_str = ''23:00''\<rparr>,
      \<lparr>artist = ''D'', stage = ''Sonora'', day = ''Friday'', start = ''22:00'', end_str = ''23:30''\<rparr>,
      \<lparr>artist = ''B'', stage = ''Gobi'', day = ''Friday'', start = ''00:10'', end_str = ''01:00''\<rparr>,
      \<lparr>artist = ''A'', stage = ''Sahara'', day = ''Saturday'', start = ''17:00'', end_str = ''18:00''\<rparr>]"
    unfolding chronological_sample .
  then show ?thesis
    using wf chronological_sample by simp
qed

section \<open>Properties of the search\<close>
















section \<open>Properties of the festival timestamps\<close>







end
